theory Spec2Isabelle
  imports Complex_Main "HOL-Library.AList" "HOL-Library.Sublist"
begin

section \<open>Python values\<close>

text \<open>
  Inbound messages are parsed with \<^verbatim>\<open>json.loads\<close>, so what the handlers read is a JSON
  value. A JSON object keeps its keys in order (an association list); numbers are the
  finite ones (Python's \<^verbatim>\<open>int\<close> and finite \<^verbatim>\<open>float\<close>), which compare exactly.
\<close>

datatype json =
    JNull
  | JBool bool
  | JNum real
  | JStr string
  | JArr "json list"
  | JObj "(string \<times> json) list"

text \<open>The exceptions that the modelled code can raise.\<close>

datatype error =
    TypeError
  | AttributeError
  | KeyError
  | JSONDecodeError
  | ConnectionClosed
  | FileNotFoundError

text \<open>What a coroutine does: it returns, or an exception leaves it.\<close>

datatype outcome = Returned | Raised error

text \<open>\<^verbatim>\<open>d.get(k)\<close> on a parsed object.\<close>

definition dict_get :: "(string \<times> json) list \<Rightarrow> string \<Rightarrow> json option" where
  "dict_get d k = map_of d k"

text \<open>Python truthiness, as \<^verbatim>\<open>if not v\<close> tests it.\<close>

fun truthy :: "json \<Rightarrow> bool" where
  "truthy JNull = False"
| "truthy (JBool b) = b"
| "truthy (JNum r) = (r \<noteq> 0)"
| "truthy (JStr s) = (s \<noteq> [])"
| "truthy (JArr xs) = (xs \<noteq> [])"
| "truthy (JObj kvs) = (kvs \<noteq> [])"

text \<open>
  The numeric reading of a value in a comparison with a float: \<^verbatim>\<open>int\<close>, \<^verbatim>\<open>float\<close> and
  \<^verbatim>\<open>bool\<close> (a subclass of \<^verbatim>\<open>int\<close>) compare, everything else raises \<^verbatim>\<open>TypeError\<close>.
\<close>

fun num_of :: "json \<Rightarrow> real option" where
  "num_of (JNum r) = Some r"
| "num_of (JBool b) = Some (if b then 1 else 0)"
| "num_of _ = None"

definition py_lt :: "json \<Rightarrow> real \<Rightarrow> error + bool" where
  "py_lt v b = (case num_of v of None \<Rightarrow> Inl TypeError | Some r \<Rightarrow> Inr (r < b))"

definition py_gt :: "json \<Rightarrow> real \<Rightarrow> error + bool" where
  "py_gt v b = (case num_of v of None \<Rightarrow> Inl TypeError | Some r \<Rightarrow> Inr (r > b))"

text \<open>The chained comparison \<^verbatim>\<open>lo <= v <= hi\<close>.\<close>

definition py_between :: "real \<Rightarrow> json \<Rightarrow> real \<Rightarrow> error + bool" where
  "py_between lo v hi =
     (case num_of v of None \<Rightarrow> Inl TypeError | Some r \<Rightarrow> Inr (lo \<le> r \<and> r \<le> hi))"


section \<open>Regions\<close>

datatype region =
    DUST_PLAINS
  | HIMALAYAN_PEAKS
  | INDRAPURA_CITY
  | NARMADA_FOREST
  | OCEAN_FRONTIER

fun region_value :: "region \<Rightarrow> string" where
  "region_value DUST_PLAINS = ''dust_plains''"
| "region_value HIMALAYAN_PEAKS = ''himalayan_peaks''"
| "region_value INDRAPURA_CITY = ''indrapura_city''"
| "region_value NARMADA_FOREST = ''narmada_forest''"
| "region_value OCEAN_FRONTIER = ''ocean_frontier''"

record position =
  x :: json
  y :: json
  z :: json

text \<open>The biome boundaries of \<^verbatim>\<open>WorldConfig\<close> (the fields \<^verbatim>\<open>is_in_region\<close> reads).\<close>

record world_config =
  dust_plains_boundary :: real
  ocean_frontier_boundary :: real
  himalayan_peaks_boundary :: real
  narmada_forest_boundary :: real

definition default_world_config :: world_config where
  "default_world_config =
     \<lparr> dust_plains_boundary = -200, ocean_frontier_boundary = 200,
       himalayan_peaks_boundary = 200, narmada_forest_boundary = -100 \<rparr>"

text \<open>\<^verbatim>\<open>ConfigManager.is_in_region\<close>: an \<^verbatim>\<open>if/elif\<close> chain on the region name.\<close>

definition is_in_region :: "world_config \<Rightarrow> json \<Rightarrow> json \<Rightarrow> string \<Rightarrow> error + bool" where
  "is_in_region wc xv zv r =
     (if r = ''dust_plains'' then py_lt xv (dust_plains_boundary wc)
      else if r = ''ocean_frontier'' then py_gt xv (ocean_frontier_boundary wc)
      else if r = ''himalayan_peaks'' then py_gt zv (himalayan_peaks_boundary wc)
      else if r = ''narmada_forest'' then py_lt zv (narmada_forest_boundary wc)
      else (case py_between (dust_plains_boundary wc) xv (ocean_frontier_boundary wc) of
              Inl e \<Rightarrow> Inl e
            | Inr False \<Rightarrow> Inr False
            | Inr True \<Rightarrow>
                py_between (narmada_forest_boundary wc) zv (himalayan_peaks_boundary wc)))"

text \<open>\<^verbatim>\<open>IntegratedAncientBharatServer.get_region_from_position\<close>.\<close>

definition get_region_from_position :: "world_config \<Rightarrow> json \<Rightarrow> json \<Rightarrow> error + region" where
  "get_region_from_position wc xv zv =
     (case is_in_region wc xv zv ''dust_plains'' of
        Inl e \<Rightarrow> Inl e
      | Inr True \<Rightarrow> Inr DUST_PLAINS
      | Inr False \<Rightarrow>
     (case is_in_region wc xv zv ''ocean_frontier'' of
        Inl e \<Rightarrow> Inl e
      | Inr True \<Rightarrow> Inr OCEAN_FRONTIER
      | Inr False \<Rightarrow>
     (case is_in_region wc xv zv ''himalayan_peaks'' of
        Inl e \<Rightarrow> Inl e
      | Inr True \<Rightarrow> Inr HIMALAYAN_PEAKS
      | Inr False \<Rightarrow>
     (case is_in_region wc xv zv ''narmada_forest'' of
        Inl e \<Rightarrow> Inl e
      | Inr True \<Rightarrow> Inr NARMADA_FOREST
      | Inr False \<Rightarrow> Inr INDRAPURA_CITY))))"

text \<open>
  \<^verbatim>\<open>AncientBharatServer.get_region_from_position\<close> of the first server
  (\<^verbatim>\<open>ancient_bharat_server.py\<close>), with its literal boundaries.
\<close>

definition legacy_get_region_from_position :: "position \<Rightarrow> error + region" where
  "legacy_get_region_from_position pos =
     (case py_lt (x pos) (-200) of
        Inl e \<Rightarrow> Inl e
      | Inr True \<Rightarrow> Inr DUST_PLAINS
      | Inr False \<Rightarrow>
     (case py_gt (x pos) 200 of
        Inl e \<Rightarrow> Inl e
      | Inr True \<Rightarrow> Inr OCEAN_FRONTIER
      | Inr False \<Rightarrow>
     (case py_gt (z pos) 200 of
        Inl e \<Rightarrow> Inl e
      | Inr True \<Rightarrow> Inr HIMALAYAN_PEAKS
      | Inr False \<Rightarrow>
     (case py_lt (z pos) (-100) of
        Inl e \<Rightarrow> Inl e
      | Inr True \<Rightarrow> Inr NARMADA_FOREST
      | Inr False \<Rightarrow> Inr INDRAPURA_CITY))))"

text \<open>The zone of each region under a configuration, as a product of two intervals.\<close>

fun zone :: "world_config \<Rightarrow> region \<Rightarrow> (real \<times> real) set" where
  "zone wc DUST_PLAINS = {..< dust_plains_boundary wc} \<times> UNIV"
| "zone wc OCEAN_FRONTIER =
     ({dust_plains_boundary wc ..} \<inter> {ocean_frontier_boundary wc <..}) \<times> UNIV"
| "zone wc HIMALAYAN_PEAKS =
     {dust_plains_boundary wc .. ocean_frontier_boundary wc} \<times> {himalayan_peaks_boundary wc <..}"
| "zone wc NARMADA_FOREST =
     {dust_plains_boundary wc .. ocean_frontier_boundary wc}
       \<times> ({.. himalayan_peaks_boundary wc} \<inter> {..< narmada_forest_boundary wc})"
| "zone wc INDRAPURA_CITY =
     {dust_plains_boundary wc .. ocean_frontier_boundary wc}
       \<times> {narmada_forest_boundary wc .. himalayan_peaks_boundary wc}"


section \<open>Regions: results\<close>

lemma get_region_num:
  "get_region_from_position wc (JNum a) (JNum b) =
     Inr (if a < dust_plains_boundary wc then DUST_PLAINS
          else if a > ocean_frontier_boundary wc then OCEAN_FRONTIER
          else if b > himalayan_peaks_boundary wc then HIMALAYAN_PEAKS
          else if b < narmada_forest_boundary wc then NARMADA_FOREST
          else INDRAPURA_CITY)"
  by (simp add: get_region_from_position_def is_in_region_def py_lt_def py_gt_def)

lemma legacy_get_region_num:
  "legacy_get_region_from_position \<lparr>x = JNum a, y = c, z = JNum b\<rparr> =
     Inr (if a < -200 then DUST_PLAINS
          else if a > 200 then OCEAN_FRONTIER
          else if b > 200 then HIMALAYAN_PEAKS
          else if b < -100 then NARMADA_FOREST
          else INDRAPURA_CITY)"
  by (simp add: legacy_get_region_from_position_def py_lt_def py_gt_def)

text \<open>
  C4. For every coordinate pair the region-from-position function returns one of the
  five regions, and it returns region \<open>r\<close> exactly on the zone of \<open>r\<close>, which is a
  product of an interval of x with an interval of z: the five zones are fixed rectangles
  (bounded or not) that partition the plane. This holds for the integrated server under
  any configured boundaries, and for the first server under its literal ones.
\<close>

theorem region_zones_rectangular:
  "(\<exists>r. get_region_from_position wc (JNum a) (JNum b) = Inr r) \<and>
   (get_region_from_position wc (JNum a) (JNum b) = Inr r \<longleftrightarrow> (a, b) \<in> zone wc r) \<and>
   (legacy_get_region_from_position \<lparr>x = JNum a, y = c, z = JNum b\<rparr> = Inr r
      \<longleftrightarrow> (a, b) \<in> zone default_world_config r)"
  by (cases r) (auto simp add: get_region_num legacy_get_region_num default_world_config_def)

text \<open>
  C8. On every coordinate pair the first server's region function and the integrated
  server's, under the default boundaries -200, 200, 200, -100, return the same region.
\<close>

theorem region_functions_agree:
  "legacy_get_region_from_position \<lparr>x = JNum a, y = c, z = JNum b\<rparr> =
   get_region_from_position default_world_config (JNum a) (JNum b)"
  by (simp add: legacy_get_region_num get_region_num default_world_config_def)

end
